theory Spec2Isabelle
  imports Complex_Main "HOL-Library.Sublist" "HOL-Library.Log_Nat"
begin

section \<open>JavaScript values used by the services\<close>

text \<open>
  Strings are byte lists; the one non-ASCII character of the sources, the sign
  ``greater or equal'' of the eligibility diagnostics, is written as its three UTF-8 bytes.
  A JavaScript number that holds a count or a millisecond timestamp is an \<open>int\<close>; a
  quotient is a \<open>rat\<close>, the value of the double; \<open>None\<close> stands for \<open>NaN\<close>, whose
  comparisons are all false.  \<open>Date.parse\<close> and \<open>Date.now\<close> belong to the runtime and
  are fields of the environment record.
\<close>

record js_env =
  now :: int
  dateParse :: "string \<Rightarrow> int option"

definition truthy :: "string option \<Rightarrow> bool" where
  "truthy v = (case v of None \<Rightarrow> False | Some s \<Rightarrow> s \<noteq> [])"

definition digit :: "nat \<Rightarrow> char" where
  "digit n = char_of (48 + n)"

function show_nat :: "nat \<Rightarrow> string" where
  "show_nat n = (if n < 10 then [digit n] else show_nat (n div 10) @ [digit (n mod 10)])"
  by pat_completeness auto
termination
  by (relation "measure id") auto

definition show_int :: "int \<Rightarrow> string" where
  "show_int i = (if i < 0 then CHR ''-'' # show_nat (nat (- i)) else show_nat (nat i))"

definition ge_sign :: string where
  "ge_sign = [CHR 0xE2, CHR 0x89, CHR 0xA5]"

text \<open>
  A quotient of JavaScript numbers is an IEEE 754 binary64 value.  A finite double is a
  rational; \<open>fl\<close> rounds a rational to the nearest double, ties to the even significand
  (53 bits).  Overflow and subnormal numbers are left out: the operands here are counts of
  posts, differences of timestamps and their quotients.  \<open>js_div\<close> and \<open>js_add\<close> are the
  operators \<open>/\<close> and \<open>+\<close> on such values.  \<open>toFixed1\<close> is \<open>toFixed(1)\<close>: the
  decimal with one digit nearest to the double, the larger one at a tie.
\<close>

definition ilog2 :: "rat \<Rightarrow> int" where
  \<comment> \<open>for \<open>0 < x\<close>, the exponent \<open>e\<close> with \<open>2 ^ e \<le> x < 2 ^ (e + 1)\<close>\<close>
  "ilog2 x = (if 1 \<le> x then bitlen \<lfloor>x\<rfloor> - 1 else - bitlen (\<lceil>1 / x\<rceil> - 1))"

definition round_half_even :: "rat \<Rightarrow> int" where
  "round_half_even m =
     (let f = \<lfloor>m\<rfloor>; r = m - of_int f
      in if r < 1 / 2 then f else if 1 / 2 < r then f + 1 else if even f then f else f + 1)"

definition fl :: "rat \<Rightarrow> rat" where
  "fl x = (if x = 0 then 0
           else (let q = 2 powi (ilog2 \<bar>x\<bar> - 52)
                 in of_int (round_half_even (x / q)) * q))"

definition js_div :: "rat \<Rightarrow> rat \<Rightarrow> rat" where
  "js_div a b = fl (a / b)"

definition js_add :: "rat \<Rightarrow> rat \<Rightarrow> rat" where
  "js_add a b = fl (a + b)"

definition num_lt :: "rat option \<Rightarrow> rat \<Rightarrow> bool" where
  "num_lt a b = (case a of None \<Rightarrow> False | Some x \<Rightarrow> x < b)"

definition toFixed1 :: "rat option \<Rightarrow> string" where
  "toFixed1 a =
     (case a of
        None \<Rightarrow> ''NaN''
      | Some x \<Rightarrow>
          (let n = nat \<lfloor>x * 10 + 1 / 2\<rfloor>
           in show_nat (n div 10) @ ''.'' @ [digit (n mod 10)]))"

definition monthsBetween :: "int option \<Rightarrow> int option \<Rightarrow> rat option" where
  "monthsBetween a b =
     (case (a, b) of
        (Some ta, Some tb) \<Rightarrow>
          Some (js_div (of_int \<bar>ta - tb\<bar>) (of_int (1000 * 60 * 60 * 24 * 30)))
      | _ \<Rightarrow> None)"

section \<open>Data model\<close>

record Eligibility =
  eligible :: bool
  reasons :: "string list"

record 'p SelectedAccount =
  profile :: 'p
  eligibility :: Eligibility

record BskyProfileBasic =
  did :: string
  handle :: string
  displayName :: "string option"
  followersCount :: "int option"
  postsCount :: "int option"
  createdAt :: "string option"

text \<open>The Twitter profile has the same fields with an optional \<open>user_id\<close> in place of
  the \<open>did\<close>; its field names carry the prefix \<open>tw_\<close>.\<close>

record TwitterProfileBasic =
  tw_user_id :: "string option"
  tw_handle :: string
  tw_displayName :: "string option"
  tw_followersCount :: "int option"
  tw_postsCount :: "int option"
  tw_createdAt :: "string option"

text \<open>The configuration modules \<open>config/bsky\<close> and \<open>config/twitter\<close> are parameters.\<close>

record bsky_config =
  BSKY_MIN_FOLLOWERS :: int
  BSKY_MIN_ACCOUNT_MONTHS :: int
  BSKY_MAX_ACCOUNTS :: int
  DEFAULT_RECENCY_MINUTES :: rat

record twitter_config =
  TWITTER_MIN_FOLLOWERS :: int
  TWITTER_MIN_ACCOUNT_MONTHS :: int
  TWITTER_MAX_ACCOUNTS :: int

section \<open>Eligibility (bskyService and twitterService, \<open>computeEligibility\<close>)\<close>

definition computeEligibility :: "js_env \<Rightarrow> bsky_config \<Rightarrow> BskyProfileBasic \<Rightarrow> Eligibility" where
  "computeEligibility env cfg p =
     (let followers = (case followersCount p of None \<Rightarrow> 0 | Some n \<Rightarrow> n);
          ok1 = \<not> followers < BSKY_MIN_FOLLOWERS cfg;
          r1 = (if followers < BSKY_MIN_FOLLOWERS cfg
                then [''followers='' @ show_int followers @ '' < min='' @ show_int (BSKY_MIN_FOLLOWERS cfg)]
                else [''followers='' @ show_int followers @ '' '' @ ge_sign @ '' min=''
                        @ show_int (BSKY_MIN_FOLLOWERS cfg)])
      in if truthy (createdAt p)
         then (let months = monthsBetween (dateParse env (the (createdAt p))) (Some (now env))
               in if num_lt months (of_int (BSKY_MIN_ACCOUNT_MONTHS cfg))
                  then \<lparr>eligible = False,
                        reasons = r1 @ [''age='' @ toFixed1 months @ ''mo < min=''
                                          @ show_int (BSKY_MIN_ACCOUNT_MONTHS cfg) @ ''mo'']\<rparr>
                  else \<lparr>eligible = ok1,
                        reasons = r1 @ [''age='' @ toFixed1 months @ ''mo '' @ ge_sign @ '' min=''
                                          @ show_int (BSKY_MIN_ACCOUNT_MONTHS cfg) @ ''mo'']\<rparr>)
         else \<lparr>eligible = ok1,
               reasons = r1 @ [''age=unknown (AppView); allowed based on followers/activity'']\<rparr>)"

definition tw_computeEligibility ::
  "js_env \<Rightarrow> twitter_config \<Rightarrow> TwitterProfileBasic \<Rightarrow> Eligibility" where
  "tw_computeEligibility env cfg p =
     (let followers = (case tw_followersCount p of None \<Rightarrow> 0 | Some n \<Rightarrow> n);
          ok1 = \<not> followers < TWITTER_MIN_FOLLOWERS cfg;
          r1 = (if followers < TWITTER_MIN_FOLLOWERS cfg
                then [''followers='' @ show_int followers @ '' < min=''
                        @ show_int (TWITTER_MIN_FOLLOWERS cfg)]
                else [''followers='' @ show_int followers @ '' '' @ ge_sign @ '' min=''
                        @ show_int (TWITTER_MIN_FOLLOWERS cfg)])
      in if truthy (tw_createdAt p)
         then (let months = monthsBetween (dateParse env (the (tw_createdAt p))) (Some (now env))
               in if num_lt months (of_int (TWITTER_MIN_ACCOUNT_MONTHS cfg))
                  then \<lparr>eligible = False,
                        reasons = r1 @ [''age='' @ toFixed1 months @ ''mo < min=''
                                          @ show_int (TWITTER_MIN_ACCOUNT_MONTHS cfg) @ ''mo'']\<rparr>
                  else \<lparr>eligible = ok1,
                        reasons = r1 @ [''age='' @ toFixed1 months @ ''mo '' @ ge_sign @ '' min=''
                                          @ show_int (TWITTER_MIN_ACCOUNT_MONTHS cfg) @ ''mo'']\<rparr>)
         else \<lparr>eligible = ok1,
               reasons = r1 @ [''age=unknown; allowed based on followers/activity'']\<rparr>)"

text \<open>The three conditions of the Eligibility Evaluator as the specification words them,
  without the functions of the code.  The follower check passes unless the follower count
  (0 when missing) is below the minimum.  The age is unknown when no creation timestamp is
  present.  The age check passes when the creation timestamp is known and lies at least the
  minimum number of months, of 30 days each, away from now; it is stated on integral
  milliseconds.\<close>

definition spec_followerCheckPassed :: "int \<Rightarrow> int option \<Rightarrow> bool" where
  "spec_followerCheckPassed minFollowers fc = (\<not> (case fc of None \<Rightarrow> 0 | Some n \<Rightarrow> n) < minFollowers)"

definition spec_ageUnknown :: "string option \<Rightarrow> bool" where
  "spec_ageUnknown c = (c = None \<or> c = Some [])"

definition spec_ageCheckPassed :: "js_env \<Rightarrow> int \<Rightarrow> string option \<Rightarrow> bool" where
  "spec_ageCheckPassed env minMonths c =
     (case c of
        None \<Rightarrow> False
      | Some s \<Rightarrow>
          (case dateParse env s of
             None \<Rightarrow> False
           | Some t \<Rightarrow> minMonths * (30 * 24 * 60 * 60 * 1000) \<le> \<bar>now env - t\<bar>))"

section \<open>Override rules (service \<open>accountOverrides\<close>, consumed by both selectors)\<close>

text \<open>The rule objects come from \<open>getOverrides\<close> of the service \<open>accountOverrides\<close>; the
  selectors read \<open>identifier\<close>, \<open>identifier_type\<close>, \<open>handle\<close> and \<open>bypass_eligibility\<close>
  only, and never the scope, the match id or the expiry.  The field \<open>handle\<close> of a rule
  is \<open>rule_handle\<close> here.\<close>

datatype identifier_type = Did | Handle | UserId

datatype rule_scope = Global | Match

record OverrideRule =
  "identifier" :: string
  identifier_type :: identifier_type
  rule_handle :: "string option"
  scope :: rule_scope
  match_id :: "string option"
  bypass_eligibility :: bool
  expires_at :: "string option"

definition admin_bypass :: Eligibility where
  "admin_bypass = \<lparr>eligible = True, reasons = [''admin:include override (bypass=true)'']\<rparr>"

definition js_sort_desc :: "('a \<Rightarrow> int) \<Rightarrow> 'a list \<Rightarrow> 'a list" where
  \<comment> \<open>\<open>xs.sort((a, b) => f(b) - f(a))\<close>: the stable sort by descending \<open>f\<close>\<close>
  "js_sort_desc f xs = sort_key (\<lambda>x. - f x) xs"

section \<open>Account selection, Bluesky (bskyService, \<open>selectEligibleAccounts\<close>)\<close>

text \<open>The network is a parameter: \<open>getProfiles\<close> is the batch lookup of the agent
  (\<open>None\<close> when it throws), \<open>getAuthorFeed\<close> the feed of one actor.\<close>

definition keyOf :: "BskyProfileBasic \<Rightarrow> string" where
  "keyOf p = (if did p \<noteq> [] then ''did:'' @ did p else ''handle:'' @ handle p)"

definition ruleKey :: "OverrideRule \<Rightarrow> string" where
  "ruleKey r = (if identifier_type r = Did then ''did:'' @ identifier r
                else ''handle:'' @ identifier r)"

definition fetchProfilesByActors ::
  "(string list \<Rightarrow> BskyProfileBasic list option) \<Rightarrow> string list \<Rightarrow> BskyProfileBasic list" where
  "fetchProfilesByActors getProfiles actors =
     (if actors = [] then []
      else case getProfiles actors of None \<Rightarrow> [] | Some profiles \<Rightarrow> profiles)"

definition resolvedByKey :: "BskyProfileBasic list \<Rightarrow> (string \<rightharpoonup> BskyProfileBasic)" where
  "resolvedByKey includeProfiles = fold (\<lambda>p m. m(keyOf p \<mapsto> p)) includeProfiles Map.empty"

definition addFallback ::
  "OverrideRule \<Rightarrow> (string \<rightharpoonup> BskyProfileBasic) \<Rightarrow> (string \<rightharpoonup> BskyProfileBasic)" where
  "addFallback r m =
     (let fallbackKey = ruleKey r
      in if m fallbackKey \<noteq> None then m
         else (let h = (case rule_handle r of
                          Some h' \<Rightarrow> h'
                        | None \<Rightarrow> if identifier_type r = Handle then identifier r else [])
               in if h \<noteq> []
                  then m(fallbackKey \<mapsto>
                         \<lparr>did = [], handle = h, displayName = Some h, followersCount = Some 0,
                          postsCount = Some 0, createdAt = None\<rparr>)
                  else m))"

definition includeByKey ::
  "(string list \<Rightarrow> BskyProfileBasic list option) \<Rightarrow> OverrideRule list
     \<Rightarrow> (string \<rightharpoonup> BskyProfileBasic)" where
  "includeByKey getProfiles inc =
     (let includeActors = filter (\<lambda>a. a \<noteq> []) (map identifier inc);
          includeProfiles = fetchProfilesByActors getProfiles includeActors
      in fold addFallback inc (resolvedByKey includeProfiles))"

definition excludeKeys :: "OverrideRule list \<Rightarrow> string set" where
  "excludeKeys exc = set (map ruleKey exc)"

definition isExcluded :: "string set \<Rightarrow> BskyProfileBasic \<Rightarrow> bool" where
  "isExcluded ks p =
     ((did p \<noteq> [] \<and> ''did:'' @ did p \<in> ks) \<or> (handle p \<noteq> [] \<and> ''handle:'' @ handle p \<in> ks))"

definition includeStep ::
  "js_env \<Rightarrow> bsky_config \<Rightarrow> (string \<rightharpoonup> BskyProfileBasic) \<Rightarrow> string set \<Rightarrow> OverrideRule
     \<Rightarrow> BskyProfileBasic SelectedAccount list \<Rightarrow> BskyProfileBasic SelectedAccount list" where
  "includeStep env cfg byKey ks r acc =
     (case byKey (ruleKey r) of
        None \<Rightarrow> acc
      | Some p \<Rightarrow>
          if isExcluded ks p then acc
          else (let elig = (if bypass_eligibility r then admin_bypass
                            else computeEligibility env cfg p)
                in if \<not> bypass_eligibility r \<and> \<not> eligible elig then acc
                   else acc @ [\<lparr>profile = p, eligibility = elig\<rparr>]))"

definition selectedInclude ::
  "js_env \<Rightarrow> bsky_config \<Rightarrow> (string list \<Rightarrow> BskyProfileBasic list option)
     \<Rightarrow> OverrideRule list \<Rightarrow> OverrideRule list \<Rightarrow> BskyProfileBasic SelectedAccount list" where
  "selectedInclude env cfg getProfiles inc exc =
     fold (includeStep env cfg (includeByKey getProfiles inc) (excludeKeys exc)) inc []"

definition baseStep ::
  "js_env \<Rightarrow> bsky_config \<Rightarrow> string set \<Rightarrow> BskyProfileBasic SelectedAccount list
     \<Rightarrow> BskyProfileBasic
     \<Rightarrow> BskyProfileBasic SelectedAccount list \<Rightarrow> BskyProfileBasic SelectedAccount list" where
  "baseStep env cfg ks selInc p acc =
     (if isExcluded ks p then acc
      else if find (\<lambda>si. keyOf (profile si) = keyOf p) selInc \<noteq> None then acc
      else (let elig = computeEligibility env cfg p
            in if \<not> eligible elig then acc
               else acc @ [\<lparr>profile = p, eligibility = elig\<rparr>]))"

definition selectedBase ::
  "js_env \<Rightarrow> bsky_config \<Rightarrow> (string list \<Rightarrow> BskyProfileBasic list option)
     \<Rightarrow> BskyProfileBasic list \<Rightarrow> OverrideRule list \<Rightarrow> OverrideRule list
     \<Rightarrow> BskyProfileBasic SelectedAccount list" where
  "selectedBase env cfg getProfiles baseProfiles inc exc =
     fold (baseStep env cfg (excludeKeys exc) (selectedInclude env cfg getProfiles inc exc))
       baseProfiles []"

definition followersOf :: "BskyProfileBasic SelectedAccount \<Rightarrow> int" where
  "followersOf a = (case followersCount (profile a) of None \<Rightarrow> 0 | Some n \<Rightarrow> n)"

definition selectEligibleAccounts ::
  "js_env \<Rightarrow> bsky_config \<Rightarrow> (string list \<Rightarrow> BskyProfileBasic list option)
     \<Rightarrow> BskyProfileBasic list \<Rightarrow> OverrideRule list \<Rightarrow> OverrideRule list
     \<Rightarrow> BskyProfileBasic SelectedAccount list" where
  "selectEligibleAccounts env cfg getProfiles baseProfiles inc exc =
     (let selInc = selectedInclude env cfg getProfiles inc exc;
          selBase = selectedBase env cfg getProfiles baseProfiles inc exc;
          merged = js_sort_desc followersOf (selInc @ selBase)
      in if int (length merged) > BSKY_MAX_ACCOUNTS cfg
         then (let includesCount = int (length selInc);
                   remaining = max (BSKY_MAX_ACCOUNTS cfg - includesCount) 0
               in selInc @ take (nat remaining) selBase)
         else merged)"

section \<open>Account selection, Twitter (twitterService, \<open>selectEligibleAccounts\<close>)\<close>

definition tw_keyOf :: "TwitterProfileBasic \<Rightarrow> string" where
  "tw_keyOf p = (if truthy (tw_user_id p) then ''id:'' @ the (tw_user_id p)
                 else ''handle:'' @ tw_handle p)"

definition tw_ruleKey :: "OverrideRule \<Rightarrow> string" where
  "tw_ruleKey r = (if identifier_type r = UserId then ''id:'' @ identifier r
                   else ''handle:'' @ identifier r)"

definition tw_excludeKeys :: "OverrideRule list \<Rightarrow> string set" where
  "tw_excludeKeys exc = set (map tw_ruleKey exc)"

definition tw_isExcluded :: "string set \<Rightarrow> TwitterProfileBasic \<Rightarrow> bool" where
  "tw_isExcluded ks p =
     ((truthy (tw_user_id p) \<and> ''id:'' @ the (tw_user_id p) \<in> ks)
      \<or> (tw_handle p \<noteq> [] \<and> ''handle:'' @ tw_handle p \<in> ks))"

definition tw_minimalProfile :: "OverrideRule \<Rightarrow> TwitterProfileBasic" where
  "tw_minimalProfile r =
     (if identifier_type r = UserId
      then (let h = (if truthy (rule_handle r) then the (rule_handle r) else identifier r)
            in \<lparr>tw_user_id = Some (identifier r), tw_handle = h, tw_displayName = Some h,
                tw_followersCount = None, tw_postsCount = None, tw_createdAt = None\<rparr>)
      else \<lparr>tw_user_id = None, tw_handle = identifier r, tw_displayName = Some (identifier r),
            tw_followersCount = None, tw_postsCount = None, tw_createdAt = None\<rparr>)"

definition tw_includeByKey :: "OverrideRule list \<Rightarrow> (string \<rightharpoonup> TwitterProfileBasic)" where
  "tw_includeByKey inc = fold (\<lambda>r m. m(tw_ruleKey r \<mapsto> tw_minimalProfile r)) inc Map.empty"

definition tw_includeStep ::
  "js_env \<Rightarrow> twitter_config \<Rightarrow> (string \<rightharpoonup> TwitterProfileBasic) \<Rightarrow> string set \<Rightarrow> OverrideRule
     \<Rightarrow> TwitterProfileBasic SelectedAccount list \<Rightarrow> TwitterProfileBasic SelectedAccount list" where
  "tw_includeStep env cfg byKey ks r acc =
     (case byKey (tw_ruleKey r) of
        None \<Rightarrow> acc
      | Some p \<Rightarrow>
          if tw_isExcluded ks p then acc
          else (let elig = (if bypass_eligibility r then admin_bypass
                            else tw_computeEligibility env cfg p)
                in if \<not> bypass_eligibility r \<and> \<not> eligible elig then acc
                   else acc @ [\<lparr>profile = p, eligibility = elig\<rparr>]))"

definition tw_selectedInclude ::
  "js_env \<Rightarrow> twitter_config \<Rightarrow> OverrideRule list \<Rightarrow> OverrideRule list
     \<Rightarrow> TwitterProfileBasic SelectedAccount list" where
  "tw_selectedInclude env cfg inc exc =
     fold (tw_includeStep env cfg (tw_includeByKey inc) (tw_excludeKeys exc)) inc []"

definition tw_baseStep ::
  "js_env \<Rightarrow> twitter_config \<Rightarrow> string set \<Rightarrow> TwitterProfileBasic SelectedAccount list
     \<Rightarrow> TwitterProfileBasic
     \<Rightarrow> TwitterProfileBasic SelectedAccount list \<Rightarrow> TwitterProfileBasic SelectedAccount list" where
  "tw_baseStep env cfg ks selInc p acc =
     (if tw_isExcluded ks p then acc
      else if find (\<lambda>si. tw_keyOf (profile si) = tw_keyOf p) selInc \<noteq> None then acc
      else (let elig = tw_computeEligibility env cfg p
            in if \<not> eligible elig then acc
               else acc @ [\<lparr>profile = p, eligibility = elig\<rparr>]))"

definition tw_selectedBase ::
  "js_env \<Rightarrow> twitter_config \<Rightarrow> TwitterProfileBasic list \<Rightarrow> OverrideRule list
     \<Rightarrow> OverrideRule list \<Rightarrow> TwitterProfileBasic SelectedAccount list" where
  "tw_selectedBase env cfg baseProfiles inc exc =
     fold (tw_baseStep env cfg (tw_excludeKeys exc) (tw_selectedInclude env cfg inc exc))
       baseProfiles []"

definition tw_followersOf :: "TwitterProfileBasic SelectedAccount \<Rightarrow> int" where
  "tw_followersOf a = (case tw_followersCount (profile a) of None \<Rightarrow> 0 | Some n \<Rightarrow> n)"

definition tw_selectEligibleAccounts ::
  "js_env \<Rightarrow> twitter_config \<Rightarrow> TwitterProfileBasic list \<Rightarrow> OverrideRule list
     \<Rightarrow> OverrideRule list \<Rightarrow> TwitterProfileBasic SelectedAccount list" where
  "tw_selectEligibleAccounts env cfg baseProfiles inc exc =
     (let selInc = tw_selectedInclude env cfg inc exc;
          selBase = tw_selectedBase env cfg baseProfiles inc exc;
          merged = js_sort_desc tw_followersOf (selInc @ selBase)
      in if int (length merged) > TWITTER_MAX_ACCOUNTS cfg
         then (let includesCount = int (length selInc);
                   remaining = max (TWITTER_MAX_ACCOUNTS cfg - includesCount) 0
               in selInc @ take (nat remaining) selBase)
         else merged)"

section \<open>Recent posts (bskyService, \<open>fetchRecentPostsForAccounts\<close>)\<close>





record SimpleAuthor =
  sa_did :: string
  sa_handle :: string
  sa_displayName :: "string option"

record SimplePost =
  uri :: "string option"
  cid :: "string option"
  author :: SimpleAuthor
  "text" :: string
  post_createdAt :: string













section \<open>Sentiment (bskyService, \<open>summarizeSentiment\<close>)\<close>

text \<open>The ratios are the doubles \<open>count / total\<close>.\<close>

record sentiment_ratios =
  pos :: rat
  neg :: rat
  neu :: rat

record sentiment_counts =
  total :: int
  posCount :: int
  negCount :: int
  neuCount :: int

record sentiment_summary =
  ratios :: sentiment_ratios
  counts :: sentiment_counts

definition scoreStep :: "(string \<Rightarrow> int option) \<Rightarrow> SimplePost \<Rightarrow> int \<times> int \<times> int \<Rightarrow> int \<times> int \<times> int" where
  \<comment> \<open>\<open>winkSentiment\<close> is a parameter; \<open>None\<close> when its result has no numeric score\<close>
  "scoreStep winkSentiment p c =
     (case c of (posC, negC, neuC) \<Rightarrow>
        (let score = (case winkSentiment (text p) of None \<Rightarrow> 0 | Some sc \<Rightarrow> sc)
         in if 0 < score then (posC + 1, negC, neuC)
            else if score < 0 then (posC, negC + 1, neuC)
            else (posC, negC, neuC + 1)))"

definition summarizeSentiment :: "(string \<Rightarrow> int option) \<Rightarrow> SimplePost list \<Rightarrow> sentiment_summary" where
  "summarizeSentiment winkSentiment posts =
     (case fold (scoreStep winkSentiment) posts (0, 0, 0) of (posC, negC, neuC) \<Rightarrow>
        (let tot = int (length posts)
         in if tot = 0
            then \<lparr>ratios = \<lparr>pos = 0, neg = 0, neu = 0\<rparr>,
                  counts = \<lparr>total = 0, posCount = 0, negCount = 0, neuCount = 0\<rparr>\<rparr>
            else \<lparr>ratios = \<lparr>pos = js_div (of_int posC) (of_int tot),
                             neg = js_div (of_int negC) (of_int tot),
                             neu = js_div (of_int neuC) (of_int tot)\<rparr>,
                  counts = \<lparr>total = int (length posts), posCount = posC, negCount = negC,
                             neuCount = neuC\<rparr>\<rparr>))"

section \<open>Topics (bskyService, \<open>extractTopics\<close>)\<close>















section \<open>The tick stream (route \<open>GET\<close> of the Bluesky event stream)\<close>

text \<open>
  The handler schedules a heartbeat interval (\<open>pinger\<close>), the cap of the connection
  (\<open>closer\<close>) and, between two ticks, the sleep of the loop.  The asynchronous loop is a
  state machine: it stands at the \<open>await\<close> of \<open>buildTick\<close>, at the \<open>await\<close> of the sleep,
  or it has left.  An event is what the runtime delivers: the promise of
  \<open>buildTick\<close> settles (fulfilled or rejected), the sleep elapses (with the window state
  that \<open>getWindowState\<close> reports then), the interval or the cap fires, the consumer
  cancels.  \<open>parsedLast\<close> is \<open>Number(lastEventIdParam ?? lastEventIdHeader)\<close>, \<open>None\<close>
  when it is not finite; it is taken integral.  \<open>closer\<close> and \<open>pinger\<close> say that the
  variable holds a handle, \<open>closer_pending\<close> that the timeout is scheduled and has
  neither fired nor been cleared; the interval is active exactly while \<open>pinger\<close> holds.
  A tick frame carries the \<open>id\<close> line of the frame, the \<open>tick\<close> of the payload and
  its \<open>window\<close>.
\<close>

datatype window_state = Pre | Live | Post | Ended

record sse_params =
  forceWindow :: "window_state option"
  parsedLast :: "int option"

datatype frame =
    InitFrame
  | TickFrame int int window_state
  | ErrorFrame
  | EndedFrame
  | KeepAlive

datatype loop_pc = AwaitBuildTick window_state int | Sleeping | LoopDone

record stream_state =
  tick :: int
  stopped :: bool
  closer :: bool
  closer_pending :: bool
  pinger :: bool
  controller_closed :: bool
  loop_pc :: loop_pc
  frames :: "frame list"

datatype event = BuildTickDone bool | SleepElapsed window_state | Heartbeat | CapFires | Cancel

definition startTick :: "int option \<Rightarrow> int" where
  "startTick lastId = (case lastId of None \<Rightarrow> 0 | Some n \<Rightarrow> if 0 \<le> n then n + 1 else 0)"

definition enqueue :: "frame \<Rightarrow> stream_state \<Rightarrow> stream_state option" where
  \<comment> \<open>\<open>controller.enqueue\<close> throws on a closed stream: \<open>None\<close>\<close>
  "enqueue f s = (if controller_closed s then None else Some (s\<lparr>frames := frames s @ [f]\<rparr>))"

definition loopExit :: "stream_state \<Rightarrow> stream_state" where
  \<comment> \<open>the statements after the \<open>while\<close>: clear the interval, close the controller\<close>
  "loopExit s = s\<lparr>pinger := False, controller_closed := True, loop_pc := LoopDone\<rparr>"

definition loopRejected :: "stream_state \<Rightarrow> stream_state" where
  \<comment> \<open>\<open>loop().catch\<close>: close the controller\<close>
  "loopRejected s = s\<lparr>controller_closed := True, loop_pc := LoopDone\<rparr>"

definition loopHead :: "sse_params \<Rightarrow> window_state \<Rightarrow> stream_state \<Rightarrow> stream_state" where
  \<comment> \<open>\<open>while (!stopped)\<close>, the window state, and the call \<open>buildTick(.., tick++, ..)\<close>\<close>
  "loopHead P w s =
     (if stopped s then loopExit s
      else (let state = (case forceWindow P of None \<Rightarrow> w | Some f \<Rightarrow> f)
            in s\<lparr>tick := tick s + 1, loop_pc := AwaitBuildTick state (tick s)\<rparr>))"

definition buildTickDone :: "sse_params \<Rightarrow> bool \<Rightarrow> stream_state \<Rightarrow> stream_state" where
  "buildTickDone P ok s =
     (case loop_pc s of
        AwaitBuildTick state arg \<Rightarrow>
          (let dynamic = (if state = Ended then Post else state);
               tried =
                 (if ok
                  then (case enqueue (TickFrame (tick s) arg dynamic) s of
                          None \<Rightarrow> None
                        | Some s1 \<Rightarrow>
                            if forceWindow P = None \<and> state = Ended
                            then (case enqueue EndedFrame s1 of
                                    None \<Rightarrow> None
                                  | Some s2 \<Rightarrow> Some (s2, True))
                            else Some (s1, False))
                  else None)
           in case tried of
                Some (s', brk) \<Rightarrow> if brk then loopExit s' else s'\<lparr>loop_pc := Sleeping\<rparr>
              | None \<Rightarrow>
                  (case enqueue ErrorFrame s of
                     None \<Rightarrow> loopRejected s
                   | Some s' \<Rightarrow> s'\<lparr>loop_pc := Sleeping\<rparr>))
      | _ \<Rightarrow> s)"

definition start :: "sse_params \<Rightarrow> window_state \<Rightarrow> stream_state" where
  "start P w0 =
     (let s1 = \<lparr>tick = startTick (parsedLast P), stopped = False, closer = False,
                closer_pending = False, pinger = True, controller_closed = False,
                loop_pc = Sleeping, frames = [InitFrame]\<rparr>;
          s2 = loopHead P w0 s1
      in s2\<lparr>closer := True, closer_pending := True\<rparr>)"

definition step :: "sse_params \<Rightarrow> event \<Rightarrow> stream_state \<Rightarrow> stream_state" where
  "step P e s =
     (case e of
        BuildTickDone ok \<Rightarrow> buildTickDone P ok s
      | SleepElapsed w \<Rightarrow> if loop_pc s = Sleeping then loopHead P w s else s
      | Heartbeat \<Rightarrow>
          if pinger s then (case enqueue KeepAlive s of None \<Rightarrow> s | Some s' \<Rightarrow> s') else s
      | CapFires \<Rightarrow>
          if closer_pending s
          then s\<lparr>stopped := True, pinger := False, controller_closed := True,
                 closer_pending := False\<rparr>
          else s
      | Cancel \<Rightarrow>
          s\<lparr>stopped := True, closer := False, closer_pending := False, pinger := False,
            controller_closed := True\<rparr>)"

definition run :: "sse_params \<Rightarrow> event list \<Rightarrow> stream_state \<Rightarrow> stream_state" where
  "run P es s = fold (step P) es s"

definition tickFrames :: "frame list \<Rightarrow> frame list" where
  "tickFrames fs = filter (\<lambda>f. case f of TickFrame i t w \<Rightarrow> True | _ \<Rightarrow> False) fs"

section \<open>The character budget of the summary prompt (route \<open>GET\<close> of summaries/latest)\<close>

text \<open>The environment variables after \<open>Number(..)\<close>; \<open>None\<close> when a variable is not set.
  The handler reads the first two only.  \<open>lines\<close> are the formatted posts, most recent
  first.\<close>

record summaries_env =
  SUMMARIES_MAX_POSTS :: "nat option"
  SUMMARIES_MAX_CHARS :: "nat option"
  SUMMARIES_MODEL_MAX_TOKENS :: "nat option"
  SUMMARIES_RESPONSE_TOKENS :: "nat option"
  SUMMARIES_CHARS_PER_TOKEN :: "nat option"

definition MAX_POSTS :: nat where
  "MAX_POSTS = 150"

definition MAX_CHARS :: nat where
  "MAX_CHARS = 12000"

definition MAX_POSTS_ENV :: "summaries_env \<Rightarrow> nat" where
  "MAX_POSTS_ENV e = (case SUMMARIES_MAX_POSTS e of None \<Rightarrow> MAX_POSTS | Some n \<Rightarrow> n)"

definition MAX_CHARS_ENV :: "summaries_env \<Rightarrow> nat" where
  "MAX_CHARS_ENV e = (case SUMMARIES_MAX_CHARS e of None \<Rightarrow> MAX_CHARS | Some n \<Rightarrow> n)"

fun join_lines :: "string list \<Rightarrow> string" where
  "join_lines [] = []"
| "join_lines [x] = x"
| "join_lines (x # y # ys) = x @ [CHR 0x0A] @ join_lines (y # ys)"

definition summaryTexts :: "summaries_env \<Rightarrow> string list \<Rightarrow> string list" where
  "summaryTexts e lines = take (MAX_POSTS_ENV e) lines"

definition promptPosts :: "summaries_env \<Rightarrow> string list \<Rightarrow> string" where
  "promptPosts e texts =
     (let joined = join_lines texts
      in if MAX_CHARS_ENV e < length joined then take (MAX_CHARS_ENV e) joined else joined)"


section \<open>Concrete inputs\<close>

definition env0 :: js_env where
  "env0 = \<lparr>now = 1700000000000,
            dateParse = (\<lambda>s. if s = ''2023-11-01T00:00:00.000Z'' then Some 1698796800000
                             else None)\<rparr>"

definition cfg0 :: bsky_config where
  "cfg0 = \<lparr>BSKY_MIN_FOLLOWERS = 1000, BSKY_MIN_ACCOUNT_MONTHS = 6, BSKY_MAX_ACCOUNTS = 2,
            DEFAULT_RECENCY_MINUTES = 15\<rparr>"

definition tw_cfg0 :: twitter_config where
  "tw_cfg0 = \<lparr>TWITTER_MIN_FOLLOWERS = 1000, TWITTER_MIN_ACCOUNT_MONTHS = 6,
               TWITTER_MAX_ACCOUNTS = 2\<rparr>"

definition newcomer :: BskyProfileBasic where
  "newcomer = \<lparr>did = ''did:plc:new'', handle = ''new.bsky.social'', displayName = None,
                followersCount = None, postsCount = None, createdAt = None\<rparr>"

definition tw_newcomer :: TwitterProfileBasic where
  "tw_newcomer = \<lparr>tw_user_id = None, tw_handle = ''newcomer'', tw_displayName = Some ''newcomer'',
                   tw_followersCount = None, tw_postsCount = None, tw_createdAt = None\<rparr>"

text \<open>Profiles with a creation timestamp: one registered two weeks before \<open>now\<close>, one two
  years before, and one whose timestamp does not parse.\<close>

definition env1 :: js_env where
  "env1 = \<lparr>now = 1700000000000,
            dateParse = (\<lambda>s. if s = ''2023-11-01T00:00:00.000Z'' then Some 1698796800000
                             else if s = ''2021-11-01T00:00:00.000Z'' then Some 1635724800000
                             else None)\<rparr>"

definition young :: BskyProfileBasic where
  "young = \<lparr>did = ''did:plc:young'', handle = ''young.bsky.social'', displayName = None,
             followersCount = Some 5000, postsCount = None,
             createdAt = Some ''2023-11-01T00:00:00.000Z''\<rparr>"

definition veteran :: BskyProfileBasic where
  "veteran = \<lparr>did = ''did:plc:veteran'', handle = ''veteran.bsky.social'', displayName = None,
               followersCount = Some 5000, postsCount = None,
               createdAt = Some ''2021-11-01T00:00:00.000Z''\<rparr>"

definition undated :: BskyProfileBasic where
  "undated = \<lparr>did = ''did:plc:undated'', handle = ''undated.bsky.social'', displayName = None,
               followersCount = Some 5000, postsCount = None, createdAt = Some ''yesterday''\<rparr>"

definition tw_undated :: TwitterProfileBasic where
  "tw_undated = \<lparr>tw_user_id = Some ''42'', tw_handle = ''undated'', tw_displayName = None,
                  tw_followersCount = Some 5000, tw_postsCount = None,
                  tw_createdAt = Some ''yesterday''\<rparr>"

text \<open>Override rules and a profile lookup that fails (the request throws, or the
  account is unknown to the directory).\<close>

definition lookup_fails :: "string list \<Rightarrow> BskyProfileBasic list option" where
  "lookup_fails actors = None"

definition inc_spam :: OverrideRule where
  "inc_spam = \<lparr>identifier = ''did:plc:spam'', identifier_type = Did,
      rule_handle = Some ''spam.bsky.social'', scope = Global, match_id = None,
      bypass_eligibility = True, expires_at = None\<rparr>"

definition exc_spam :: OverrideRule where
  "exc_spam = \<lparr>identifier = ''did:plc:spam'', identifier_type = Did,
      rule_handle = None, scope = Match, match_id = Some ''m1'',
      bypass_eligibility = False, expires_at = None\<rparr>"

definition inc_handle :: "string \<Rightarrow> OverrideRule" where
  "inc_handle h = \<lparr>identifier = h, identifier_type = Handle,
      rule_handle = None, scope = Global, match_id = None,
      bypass_eligibility = True, expires_at = None\<rparr>"

definition three_includes :: "OverrideRule list" where
  "three_includes = [inc_handle ''a.bsky.social'', inc_handle ''b.bsky.social'',
                     inc_handle ''c.bsky.social'']"






definition fallback_profile :: "string \<Rightarrow> BskyProfileBasic" where
  "fallback_profile h = \<lparr>did = [], handle = h, displayName = Some h, followersCount = Some 0,
                          postsCount = Some 0, createdAt = None\<rparr>"

text \<open>An account, and a feed with one post whose timestamp does not parse.\<close>

definition fan :: "BskyProfileBasic SelectedAccount" where
  "fan = \<lparr>profile = \<lparr>did = ''did:plc:fan'', handle = ''fan.bsky.social'', displayName = None,
                       followersCount = Some 5000, postsCount = None, createdAt = None\<rparr>,
           eligibility = admin_bypass\<rparr>"




text \<open>A dynamic stream resumed after event 5, and the environment of the budget test
  with 200 formatted posts of 50 characters each.\<close>

definition resumed5 :: sse_params where
  "resumed5 = \<lparr>forceWindow = None, parsedLast = Some 5\<rparr>"

definition budget_env :: summaries_env where
  "budget_env = \<lparr>SUMMARIES_MAX_POSTS = None, SUMMARIES_MAX_CHARS = None,
     SUMMARIES_MODEL_MAX_TOKENS = Some 1000, SUMMARIES_RESPONSE_TOKENS = Some 600,
     SUMMARIES_CHARS_PER_TOKEN = Some 1\<rparr>"

definition budget_lines :: "string list" where
  "budget_lines =
     replicate 200 (''[2025-10-19T12:00:00.000Z] @user1.example: '' @ replicate 50 CHR ''x'')"


text \<open>A scorer and 35 posts: 8 positive, 9 negative and 18 neutral ones.\<close>

definition demo_scorer :: "string \<Rightarrow> int option" where
  "demo_scorer t = (if t = ''win'' then Some 3 else if t = ''loss'' then Some (- 2)
                    else if t = ''draw'' then Some 0 else None)"

definition post_of :: "string \<Rightarrow> SimplePost" where
  "post_of t = \<lparr>uri = None, cid = None,
       author = \<lparr>sa_did = ''did:plc:fan'', sa_handle = ''fan.bsky.social'', sa_displayName = None\<rparr>,
       text = t, post_createdAt = ''2025-10-19T12:00:00.000Z''\<rparr>"

definition posts35 :: "SimplePost list" where
  "posts35 = replicate 8 (post_of ''win'') @ replicate 9 (post_of ''loss'')
               @ replicate 18 (post_of ''draw'')"

section \<open>Eligibility\<close>

declare show_nat.simps [simp del]

text \<open>A profile without a creation timestamp is eligible exactly when the follower check
  passes, and the unknown age is disclosed; a profile with too few followers is ineligible
  and the failing comparison is among the reasons.\<close>

lemma computeEligibility_unknown_age:
  assumes "spec_ageUnknown (createdAt p)"
  shows "eligible (computeEligibility env cfg p)
           = spec_followerCheckPassed (BSKY_MIN_FOLLOWERS cfg) (followersCount p)
         \<and> ''age=unknown (AppView); allowed based on followers/activity''
             \<in> set (reasons (computeEligibility env cfg p))"
  using assms
  by (auto simp: computeEligibility_def spec_followerCheckPassed_def spec_ageUnknown_def
        truthy_def Let_def split: option.splits)

lemma computeEligibility_few_followers:
  assumes "(case followersCount p of None \<Rightarrow> 0 | Some n \<Rightarrow> n) < BSKY_MIN_FOLLOWERS cfg"
  shows "\<not> eligible (computeEligibility env cfg p)
         \<and> (''followers='' @ show_int (case followersCount p of None \<Rightarrow> 0 | Some n \<Rightarrow> n)
              @ '' < min='' @ show_int (BSKY_MIN_FOLLOWERS cfg))
             \<in> set (reasons (computeEligibility env cfg p))"
  using assms by (auto simp: computeEligibility_def Let_def split: option.splits)

lemma tw_computeEligibility_unknown_age:
  assumes "spec_ageUnknown (tw_createdAt q)"
  shows "eligible (tw_computeEligibility env tcfg q)
           = spec_followerCheckPassed (TWITTER_MIN_FOLLOWERS tcfg) (tw_followersCount q)
         \<and> ''age=unknown; allowed based on followers/activity''
             \<in> set (reasons (tw_computeEligibility env tcfg q))"
  using assms
  by (auto simp: tw_computeEligibility_def spec_followerCheckPassed_def spec_ageUnknown_def
        truthy_def Let_def split: option.splits)

lemma tw_computeEligibility_few_followers:
  assumes "(case tw_followersCount q of None \<Rightarrow> 0 | Some n \<Rightarrow> n) < TWITTER_MIN_FOLLOWERS tcfg"
  shows "\<not> eligible (tw_computeEligibility env tcfg q)
         \<and> (''followers='' @ show_int (case tw_followersCount q of None \<Rightarrow> 0 | Some n \<Rightarrow> n)
              @ '' < min='' @ show_int (TWITTER_MIN_FOLLOWERS tcfg))
             \<in> set (reasons (tw_computeEligibility env tcfg q))"
  using assms by (auto simp: tw_computeEligibility_def Let_def split: option.splits)

text \<open>The printing of the numbers that occur below, and the two quotients as doubles.\<close>

lemma show_int_5000: "show_int 5000 = ''5000''"
  by (simp add: show_int_def show_nat.simps digit_def char_of_def bit_0)

lemma show_int_1000: "show_int 1000 = ''1000''"
  by (simp add: show_int_def show_nat.simps digit_def char_of_def bit_0)

lemma show_int_6: "show_int 6 = ''6''"
  by (simp add: show_int_def show_nat.simps digit_def char_of_def bit_0)

lemma months_young: "js_div 1203200000 2592000000 = 8362239308105217 / 18014398509481984"
  by code_simp

lemma months_veteran: "js_div 64275200000 2592000000 = 6979884422481773 / 281474976710656"
  by code_simp

lemma toFixed1_young: "toFixed1 (Some (8362239308105217 / 18014398509481984)) = ''0.5''"
  by code_simp

lemma toFixed1_veteran: "toFixed1 (Some (6979884422481773 / 281474976710656)) = ''24.8''"
  by code_simp

text \<open>The age check on timestamps that parse: an account of two weeks fails it, an
  account of two years passes it, in agreement with the specification.\<close>

lemma young_account_ineligible:
  "\<not> spec_ageCheckPassed env1 (BSKY_MIN_ACCOUNT_MONTHS cfg0) (createdAt young)
   \<and> computeEligibility env1 cfg0 young
       = \<lparr>eligible = False,
          reasons = [''followers=5000 '' @ ge_sign @ '' min=1000'', ''age=0.5mo < min=6mo'']\<rparr>"
  by (simp add: computeEligibility_def spec_ageCheckPassed_def env1_def cfg0_def young_def
      truthy_def monthsBetween_def num_lt_def months_young toFixed1_young
      show_int_5000 show_int_1000 show_int_6 Let_def)

lemma veteran_account_eligible:
  "spec_ageCheckPassed env1 (BSKY_MIN_ACCOUNT_MONTHS cfg0) (createdAt veteran)
   \<and> computeEligibility env1 cfg0 veteran
       = \<lparr>eligible = True,
          reasons = [''followers=5000 '' @ ge_sign @ '' min=1000'',
                     ''age=24.8mo '' @ ge_sign @ '' min=6mo'']\<rparr>"
  by (simp add: computeEligibility_def spec_ageCheckPassed_def env1_def cfg0_def veteran_def
      truthy_def monthsBetween_def num_lt_def months_veteran toFixed1_veteran
      show_int_5000 show_int_1000 show_int_6 Let_def)

text \<open>
  C6.  On both platforms \<open>eligible = followerCheckPassed \<and> (ageCheckPassed \<or> ageUnknown)\<close>,
  and an unknown age is disclosed in the reasons.  The code misses the case of a creation
  timestamp that is present and does not parse: the number of months is \<open>NaN\<close>, the
  comparison with the minimum is false, and the profile is eligible with the reason
  \<open>age=NaNmo \<ge> min=6mo\<close>, although the age check has not passed and no unknown age is
  disclosed.
\<close>

theorem unparsable_age_is_eligible:
  "dateParse env1 ''yesterday'' = None
   \<and> spec_followerCheckPassed (BSKY_MIN_FOLLOWERS cfg0) (followersCount undated)
   \<and> \<not> spec_ageCheckPassed env1 (BSKY_MIN_ACCOUNT_MONTHS cfg0) (createdAt undated)
   \<and> \<not> spec_ageUnknown (createdAt undated)
   \<and> computeEligibility env1 cfg0 undated
       = \<lparr>eligible = True,
          reasons = [''followers=5000 '' @ ge_sign @ '' min=1000'',
                     ''age=NaNmo '' @ ge_sign @ '' min=6mo'']\<rparr>
   \<and> \<not> spec_ageCheckPassed env1 (TWITTER_MIN_ACCOUNT_MONTHS tw_cfg0) (tw_createdAt tw_undated)
   \<and> \<not> spec_ageUnknown (tw_createdAt tw_undated)
   \<and> tw_computeEligibility env1 tw_cfg0 tw_undated
       = \<lparr>eligible = True,
          reasons = [''followers=5000 '' @ ge_sign @ '' min=1000'',
                     ''age=NaNmo '' @ ge_sign @ '' min=6mo'']\<rparr>"
  by (simp add: computeEligibility_def tw_computeEligibility_def spec_ageCheckPassed_def
      spec_ageUnknown_def spec_followerCheckPassed_def env1_def cfg0_def tw_cfg0_def
      undated_def tw_undated_def truthy_def monthsBetween_def num_lt_def toFixed1_def
      show_int_5000 show_int_1000 show_int_6 Let_def)

section \<open>Account selection\<close>

lemma length_js_sort_desc: "length (js_sort_desc f xs) = length xs"
  by (simp add: js_sort_desc_def)

lemma set_js_sort_desc: "set (js_sort_desc f xs) = set xs"
  by (simp add: js_sort_desc_def)

subsection \<open>Bluesky\<close>




lemma length_includeStep: "length (includeStep env cfg byKey ks r acc) \<le> Suc (length acc)"
  by (auto simp: includeStep_def Let_def split: option.splits)

lemma length_fold_includeStep:
  "length (fold (includeStep env cfg byKey ks) rs acc) \<le> length acc + length rs"
proof (induction rs arbitrary: acc)
  case Nil
  show ?case by simp
next
  case (Cons r rs)
  have "length (fold (includeStep env cfg byKey ks) rs (includeStep env cfg byKey ks r acc))
          \<le> length (includeStep env cfg byKey ks r acc) + length rs"
    by (rule Cons.IH)
  with length_includeStep [of env cfg byKey ks r acc] show ?case by simp
qed

lemma length_selectedInclude: "length (selectedInclude env cfg gp inc exc) \<le> length inc"
  using length_fold_includeStep [of env cfg "includeByKey gp inc" "excludeKeys exc" inc "[]"]
  by (simp add: selectedInclude_def)


lemma length_selectEligibleAccounts:
  "int (length (selectEligibleAccounts env cfg gp base inc exc))
     \<le> max (BSKY_MAX_ACCOUNTS cfg) (int (length (selectedInclude env cfg gp inc exc)))"
  by (auto simp: selectEligibleAccounts_def Let_def length_js_sort_desc)

subsection \<open>Twitter\<close>




lemma length_tw_includeStep: "length (tw_includeStep env cfg byKey ks r acc) \<le> Suc (length acc)"
  by (auto simp: tw_includeStep_def Let_def split: option.splits)

lemma length_fold_tw_includeStep:
  "length (fold (tw_includeStep env cfg byKey ks) rs acc) \<le> length acc + length rs"
proof (induction rs arbitrary: acc)
  case Nil
  show ?case by simp
next
  case (Cons r rs)
  have "length (fold (tw_includeStep env cfg byKey ks) rs (tw_includeStep env cfg byKey ks r acc))
          \<le> length (tw_includeStep env cfg byKey ks r acc) + length rs"
    by (rule Cons.IH)
  with length_tw_includeStep [of env cfg byKey ks r acc] show ?case by simp
qed

lemma length_tw_selectedInclude: "length (tw_selectedInclude env cfg inc exc) \<le> length inc"
  using length_fold_tw_includeStep [of env cfg "tw_includeByKey inc" "tw_excludeKeys exc" inc "[]"]
  by (simp add: tw_selectedInclude_def)


lemma length_tw_selectEligibleAccounts:
  "int (length (tw_selectEligibleAccounts env cfg base inc exc))
     \<le> max (TWITTER_MAX_ACCOUNTS cfg) (int (length (tw_selectedInclude env cfg inc exc)))"
  by (auto simp: tw_selectEligibleAccounts_def Let_def length_js_sort_desc)




lemma includeStep_not_excluded:
  assumes "\<forall>a \<in> set acc. \<not> isExcluded ks (profile a)"
  shows "\<forall>a \<in> set (includeStep env cfg byKey ks r acc). \<not> isExcluded ks (profile a)"
  using assms by (auto simp: includeStep_def Let_def split: option.splits)

lemma fold_includeStep_not_excluded:
  "\<forall>a \<in> set acc. \<not> isExcluded ks (profile a) \<Longrightarrow>
   \<forall>a \<in> set (fold (includeStep env cfg byKey ks) rs acc). \<not> isExcluded ks (profile a)"
proof (induction rs arbitrary: acc)
  case Nil
  then show ?case by simp
next
  case (Cons r rs)
  from includeStep_not_excluded [OF Cons.prems]
  have "\<forall>a \<in> set (includeStep env cfg byKey ks r acc). \<not> isExcluded ks (profile a)" .
  from Cons.IH [OF this] show ?case by simp
qed

lemma baseStep_not_excluded:
  assumes "\<forall>a \<in> set acc. \<not> isExcluded ks (profile a)"
  shows "\<forall>a \<in> set (baseStep env cfg ks sel p acc). \<not> isExcluded ks (profile a)"
  using assms by (auto simp: baseStep_def Let_def)

lemma fold_baseStep_not_excluded:
  "\<forall>a \<in> set acc. \<not> isExcluded ks (profile a) \<Longrightarrow>
   \<forall>a \<in> set (fold (baseStep env cfg ks sel) ps acc). \<not> isExcluded ks (profile a)"
proof (induction ps arbitrary: acc)
  case Nil
  then show ?case by simp
next
  case (Cons p ps)
  from baseStep_not_excluded [OF Cons.prems]
  have "\<forall>a \<in> set (baseStep env cfg ks sel p acc). \<not> isExcluded ks (profile a)" .
  from Cons.IH [OF this] show ?case by simp
qed

lemma set_selectEligibleAccounts:
  "set (selectEligibleAccounts env cfg gp base inc exc)
     \<subseteq> set (selectedInclude env cfg gp inc exc) \<union> set (selectedBase env cfg gp base inc exc)"
  by (auto simp: selectEligibleAccounts_def Let_def set_js_sort_desc dest: in_set_takeD)

text \<open>Every selected Bluesky account passes \<open>isExcluded\<close>: neither its \<open>did\<close> nor its
  handle, where non-empty, is the key of an exclude rule.\<close>

lemma selected_not_excluded:
  assumes "a \<in> set (selectEligibleAccounts env cfg gp base inc exc)"
  shows "\<not> isExcluded (excludeKeys exc) (profile a)"
proof -
  have i: "\<forall>a \<in> set (selectedInclude env cfg gp inc exc). \<not> isExcluded (excludeKeys exc) (profile a)"
    unfolding selectedInclude_def by (rule fold_includeStep_not_excluded) simp
  have b: "\<forall>a \<in> set (selectedBase env cfg gp base inc exc). \<not> isExcluded (excludeKeys exc) (profile a)"
    unfolding selectedBase_def by (rule fold_baseStep_not_excluded) simp
  from assms set_selectEligibleAccounts [of env cfg gp base inc exc] i b show ?thesis
    by blast
qed

text \<open>
  C1.  Exclude wins: when an include rule and an exclude rule name the same identifier, the
  account of the include rule is absent from the output.  The Bluesky selector breaks this
  when the lookup of a rule given by \<open>did\<close> fails and the rule carries a handle: the
  profile synthesized for the rule has an empty \<open>did\<close>, \<open>isExcluded\<close> then compares the
  handle only, and the account is selected although an exclude rule names the same \<open>did\<close>.
\<close>

theorem excluded_did_include_is_selected:
  "ruleKey inc_spam = ruleKey exc_spam
   \<and> selectEligibleAccounts env0 cfg0 lookup_fails [] [inc_spam] [exc_spam]
       = [\<lparr>profile = fallback_profile ''spam.bsky.social'', eligibility = admin_bypass\<rparr>]"
  by (simp add: selectEligibleAccounts_def selectedInclude_def selectedBase_def includeByKey_def
      fetchProfilesByActors_def lookup_fails_def resolvedByKey_def addFallback_def ruleKey_def
      inc_spam_def exc_spam_def excludeKeys_def includeStep_def isExcluded_def js_sort_desc_def
      cfg0_def fallback_profile_def Let_def)

text \<open>
  C3 (as stated).  The output has at most \<open>BSKY_MAX_ACCOUNTS\<close> entries.  This fails when
  the include rules alone exceed the maximum: with a maximum of 2, three include rules
  with \<open>bypass_eligibility\<close> select three accounts.
\<close>

theorem selector_length_counterexample:
  "\<not> int (length (selectEligibleAccounts env0 cfg0 lookup_fails [] three_includes []))
       \<le> BSKY_MAX_ACCOUNTS cfg0"
  by (simp add: selectEligibleAccounts_def selectedInclude_def selectedBase_def includeByKey_def
      fetchProfilesByActors_def lookup_fails_def resolvedByKey_def addFallback_def ruleKey_def
      three_includes_def inc_handle_def excludeKeys_def includeStep_def isExcluded_def
      js_sort_desc_def cfg0_def Let_def)

text \<open>
  C3 (amended).  On both platforms the output has at most as many entries as the larger of
  the platform maximum and the number of accounts selected from include rules, which is at
  most the number of include rules; so the output has at most the platform maximum of
  entries whenever the include rules are no more than the maximum.
\<close>

theorem selector_length_bound:
  "int (length (selectEligibleAccounts env cfg gp base inc exc))
     \<le> max (BSKY_MAX_ACCOUNTS cfg) (int (length (selectedInclude env cfg gp inc exc)))
   \<and> length (selectedInclude env cfg gp inc exc) \<le> length inc
   \<and> (int (length inc) \<le> BSKY_MAX_ACCOUNTS cfg \<longrightarrow>
        int (length (selectEligibleAccounts env cfg gp base inc exc)) \<le> BSKY_MAX_ACCOUNTS cfg)
   \<and> int (length (tw_selectEligibleAccounts env tcfg tbase inc exc))
     \<le> max (TWITTER_MAX_ACCOUNTS tcfg) (int (length (tw_selectedInclude env tcfg inc exc)))
   \<and> length (tw_selectedInclude env tcfg inc exc) \<le> length inc
   \<and> (int (length inc) \<le> TWITTER_MAX_ACCOUNTS tcfg \<longrightarrow>
        int (length (tw_selectEligibleAccounts env tcfg tbase inc exc)) \<le> TWITTER_MAX_ACCOUNTS tcfg)"
  using length_selectEligibleAccounts [of env cfg gp base inc exc]
    length_selectedInclude [of env cfg gp inc exc]
    length_tw_selectEligibleAccounts [of env tcfg tbase inc exc]
    length_tw_selectedInclude [of env tcfg inc exc]
  by linarith


theorem selector_length_bound_witness:
  "int (length [inc_handle ''a.bsky.social'']) \<le> BSKY_MAX_ACCOUNTS cfg0
   \<and> int (length (selectEligibleAccounts env0 cfg0 lookup_fails [newcomer]
                    [inc_handle ''a.bsky.social''] [])) \<le> BSKY_MAX_ACCOUNTS cfg0
   \<and> int (length [inc_handle ''a.bsky.social'']) \<le> TWITTER_MAX_ACCOUNTS tw_cfg0
   \<and> int (length (tw_selectEligibleAccounts env0 tw_cfg0 [tw_newcomer]
                    [inc_handle ''a.bsky.social''] [])) \<le> TWITTER_MAX_ACCOUNTS tw_cfg0"
  using selector_length_bound [of env0 cfg0 lookup_fails "[newcomer]"
      "[inc_handle ''a.bsky.social'']" "[]" tw_cfg0 "[tw_newcomer]"]
  by (simp add: cfg0_def tw_cfg0_def)




section \<open>Recent posts\<close>













section \<open>The tick stream\<close>

lemma first_tick_frame_id:
  assumes "0 \<le> n"
  shows "tickFrames (frames (run \<lparr>forceWindow = fw, parsedLast = Some n\<rparr> [BuildTickDone True]
           (start \<lparr>forceWindow = fw, parsedLast = Some n\<rparr> w)))
         = [TickFrame (n + 2) (n + 1)
              (case fw of None \<Rightarrow> (if w = Ended then Post else w)
               | Some f \<Rightarrow> if f = Ended then Post else f)]"
  using assms
  by (auto simp add: run_def step_def start_def loopHead_def buildTickDone_def enqueue_def
      startTick_def tickFrames_def loopExit_def Let_def split: option.splits)

text \<open>
  C2.  A stream started with the last-seen event id 5 emits its first tick frame with id 6,
  and the ids grow by one per tick.  In the handler the counter is incremented in the call
  of \<open>buildTick\<close>, before the \<open>id\<close> line is written: the payload of the first frame
  carries tick 6 and the frame carries id 7.
\<close>

theorem resumed_stream_first_id:
  "tickFrames (frames (run resumed5 [BuildTickDone True, SleepElapsed Live, BuildTickDone True]
                         (start resumed5 Live)))
     = [TickFrame 7 6 Live, TickFrame 8 7 Live]"
  by (simp add: run_def step_def start_def loopHead_def buildTickDone_def enqueue_def
      resumed5_def startTick_def tickFrames_def Let_def)

lemma cancel_clears_timers:
  "\<not> pinger (step P Cancel s) \<and> \<not> closer_pending (step P Cancel s)"
  by (simp add: step_def)

lemma cap_clears_timers:
  "closer_pending s \<Longrightarrow>
   \<not> pinger (step P CapFires s) \<and> \<not> closer_pending (step P CapFires s)"
  by (simp add: step_def)

lemma natural_end_leaves_closer:
  assumes "forceWindow P = None" and "loop_pc s = AwaitBuildTick Ended a"
    and "\<not> controller_closed s"
  shows "closer_pending (step P (BuildTickDone True) s) = closer_pending s
     \<and> controller_closed (step P (BuildTickDone True) s)
     \<and> loop_pc (step P (BuildTickDone True) s) = LoopDone"
  using assms by (simp add: step_def buildTickDone_def enqueue_def loopExit_def Let_def)

text \<open>
  C9.  On every exit path both timers are cleared, so that no timer is pending once the
  stream is closed.  Cancellation clears both and the cap clears the interval when it
  fires, but the natural end does not clear the cap: a dynamic stream whose first window
  state is \<open>ended\<close> emits its tick and the \<open>ended\<close> frame, clears the interval and closes
  the controller, and the timeout of the cap stays scheduled.
\<close>

theorem natural_end_keeps_cap_timer:
  "frames (run resumed5 [BuildTickDone True] (start resumed5 Ended))
     = [InitFrame, TickFrame 7 6 Post, EndedFrame]
   \<and> controller_closed (run resumed5 [BuildTickDone True] (start resumed5 Ended))
   \<and> loop_pc (run resumed5 [BuildTickDone True] (start resumed5 Ended)) = LoopDone
   \<and> \<not> pinger (run resumed5 [BuildTickDone True] (start resumed5 Ended))
   \<and> closer_pending (run resumed5 [BuildTickDone True] (start resumed5 Ended))"
  by (simp add: run_def step_def start_def loopHead_def buildTickDone_def enqueue_def
      resumed5_def startTick_def loopExit_def Let_def)

section \<open>The character budget\<close>

lemma length_join_lines:
  "length (join_lines xs) = sum_list (map length xs) + (length xs - 1)"
  by (induction xs rule: join_lines.induct) auto

lemma length_promptPosts: "length (promptPosts e texts) = min (MAX_CHARS_ENV e) (length (join_lines texts))"
  by (simp add: promptPosts_def Let_def)

text \<open>
  C5.  The budget is \<open>(modelMaxTokens - reservedResponseTokens) * charsPerToken\<close>, and
  with 1000, 600 and 1 the joined text that is forwarded has at most 400 characters.  The
  handler never reads these three variables: it cuts at \<open>SUMMARIES_MAX_CHARS\<close>, by
  default 12000.  On the input of the test of the repository (200 posts of 50
  characters) it forwards 12000 characters.
\<close>

theorem budget_ignores_token_model:
  "SUMMARIES_MODEL_MAX_TOKENS budget_env = Some 1000
   \<and> SUMMARIES_RESPONSE_TOKENS budget_env = Some 600
   \<and> SUMMARIES_CHARS_PER_TOKEN budget_env = Some 1
   \<and> length (promptPosts budget_env (summaryTexts budget_env budget_lines)) = 12000"
  by (simp add: length_promptPosts summaryTexts_def budget_env_def budget_lines_def
       MAX_POSTS_ENV_def MAX_CHARS_ENV_def MAX_POSTS_def MAX_CHARS_def length_join_lines
       sum_list_replicate)

section \<open>Topics\<close>




































section \<open>Sentiment\<close>

text \<open>
  C8 (as stated).  For a non-empty post list the ratios satisfy \<open>pos + neu + neg == 1\<close>.
  The ratios are doubles: with 8 positive, 9 negative and 18 neutral posts of 35 the three
  quotients round to values whose sum, computed in doubles or exactly, is not 1.
\<close>

theorem sentiment_ratios_counterexample:
  "js_add (js_add (pos (ratios (summarizeSentiment demo_scorer posts35)))
                  (neu (ratios (summarizeSentiment demo_scorer posts35))))
          (neg (ratios (summarizeSentiment demo_scorer posts35))) \<noteq> 1
   \<and> pos (ratios (summarizeSentiment demo_scorer posts35))
       + neu (ratios (summarizeSentiment demo_scorer posts35))
       + neg (ratios (summarizeSentiment demo_scorer posts35)) \<noteq> 1"
  by code_simp

lemma round_half_even_error: "\<bar>of_int (round_half_even m) - m\<bar> \<le> 1 / 2"
proof -
  have "of_int \<lfloor>m\<rfloor> \<le> m" and "m < of_int \<lfloor>m\<rfloor> + 1" by linarith+
  then show ?thesis
    by (auto simp: round_half_even_def Let_def)
qed

lemma ilog2_below_one:
  assumes "0 < x" and "x < 1"
  shows "ilog2 x \<le> - 1"
proof -
  from assms have "1 < 1 / x" by simp
  then have "2 \<le> \<lceil>1 / x\<rceil>" by linarith
  then have "0 < \<lceil>1 / x\<rceil> - 1" by simp
  then have "bitlen (\<lceil>1 / x\<rceil> - 1) \<noteq> 0" by (simp add: bitlen_eq_zero_iff)
  with bitlen_nonneg [of "\<lceil>1 / x\<rceil> - 1"] have "1 \<le> bitlen (\<lceil>1 / x\<rceil> - 1)" by linarith
  with assms show ?thesis by (simp add: ilog2_def)
qed

lemma fl_one: "fl 1 = 1"
  by code_simp

lemma fl_error:
  assumes "0 \<le> x" and "x \<le> 1"
  shows "\<bar>fl x - x\<bar> \<le> 1 / 2 ^ 54"
proof (cases "x = 0 \<or> x = 1")
  case True
  then show ?thesis by (auto simp: fl_one) (simp add: fl_def)
next
  case False
  with assms have x: "0 < x" "x < 1" by auto
  define q :: rat where "q = 2 powi (ilog2 \<bar>x\<bar> - 52)"
  have qpos: "0 < q" by (simp add: q_def)
  from x have "ilog2 \<bar>x\<bar> - 52 \<le> - 53" using ilog2_below_one [of x] by simp
  then have "q \<le> 2 powi (- 53)" unfolding q_def by (rule power_int_increasing) simp
  then have qle: "q \<le> 1 / 2 ^ 53" by (simp add: power_int_minus inverse_eq_divide)
  have "fl x = of_int (round_half_even (x / q)) * q"
    using x by (simp add: fl_def q_def Let_def)
  then have "fl x - x = (of_int (round_half_even (x / q)) - x / q) * q"
    using qpos by (simp add: algebra_simps)
  then have "\<bar>fl x - x\<bar> = \<bar>of_int (round_half_even (x / q)) - x / q\<bar> * q"
    using qpos by (simp add: abs_mult)
  also have "\<dots> \<le> (1 / 2) * q"
    using round_half_even_error [of "x / q"] qpos by (intro mult_right_mono) auto
  also have "\<dots> \<le> (1 / 2) * (1 / 2 ^ 53)"
    using qle by simp
  finally show ?thesis by simp
qed


lemma ilog2_below_two:
  assumes "0 < x" and "x < 2"
  shows "ilog2 x \<le> 0"
proof (cases "1 \<le> x")
  case True
  with assms have "\<lfloor>x\<rfloor> = 1" by linarith
  then have "bitlen \<lfloor>x\<rfloor> = 1" by (simp add: bitlen_def floorlog_def)
  with True show ?thesis by (simp add: ilog2_def)
next
  case False
  with assms ilog2_below_one [of x] show ?thesis by simp
qed

lemma round_half_even_nonneg: "0 \<le> m \<Longrightarrow> 0 \<le> round_half_even m"
proof -
  assume "0 \<le> m"
  then have "0 \<le> \<lfloor>m\<rfloor>" by simp
  then show ?thesis by (auto simp: round_half_even_def Let_def)
qed

lemma fl_nonneg: "0 \<le> x \<Longrightarrow> 0 \<le> fl x"
proof -
  assume x: "0 \<le> x"
  have "0 < (2::rat) powi (ilog2 \<bar>x\<bar> - 52)" by simp
  with x have "0 \<le> x / 2 powi (ilog2 \<bar>x\<bar> - 52)" by simp
  then have "0 \<le> round_half_even (x / 2 powi (ilog2 \<bar>x\<bar> - 52))"
    by (rule round_half_even_nonneg)
  then show ?thesis by (simp add: fl_def Let_def)
qed

lemma fl_error_below_two:
  assumes "0 \<le> x" and "x < 2"
  shows "\<bar>fl x - x\<bar> \<le> 1 / 2 ^ 53"
proof (cases "x = 0")
  case True
  then show ?thesis by (simp add: fl_def)
next
  case False
  with assms have x: "0 < x" by simp
  define q :: rat where "q = 2 powi (ilog2 \<bar>x\<bar> - 52)"
  have qpos: "0 < q" by (simp add: q_def)
  from x assms(2) have "ilog2 \<bar>x\<bar> - 52 \<le> - 52" using ilog2_below_two [of x] by simp
  then have "q \<le> 2 powi (- 52)" unfolding q_def by (rule power_int_increasing) simp
  then have qle: "q \<le> 1 / 2 ^ 52" by (simp add: power_int_minus inverse_eq_divide)
  have "fl x = of_int (round_half_even (x / q)) * q"
    using x by (simp add: fl_def q_def Let_def)
  then have "fl x - x = (of_int (round_half_even (x / q)) - x / q) * q"
    using qpos by (simp add: algebra_simps)
  then have "\<bar>fl x - x\<bar> = \<bar>of_int (round_half_even (x / q)) - x / q\<bar> * q"
    using qpos by (simp add: abs_mult)
  also have "\<dots> \<le> (1 / 2) * q"
    using round_half_even_error [of "x / q"] qpos by (intro mult_right_mono) auto
  also have "\<dots> \<le> (1 / 2) * (1 / 2 ^ 52)"
    using qle by simp
  finally show ?thesis by simp
qed

lemma js_sum_bound:
  fixes a b c t :: rat
  assumes "0 \<le> a" "0 \<le> b" "0 \<le> c" "0 < t" "a + b + c = t"
  shows "\<bar>fl (a / t) + fl (b / t) + fl (c / t) - 1\<bar> \<le> 3 / 2 ^ 54"
    and "\<bar>js_add (js_add (fl (a / t)) (fl (b / t))) (fl (c / t)) - 1\<bar> \<le> 7 / 2 ^ 54"
proof -
  have le: "a / t \<le> 1" "b / t \<le> 1" "c / t \<le> 1"
    using assms by simp_all
  have nn: "0 \<le> a / t" "0 \<le> b / t" "0 \<le> c / t"
    using assms by simp_all
  have exact: "a / t + b / t + c / t = 1"
    using assms by (simp flip: add_divide_distrib)
  have ea: "\<bar>fl (a / t) - a / t\<bar> \<le> 1 / 2 ^ 54" using nn(1) le(1) by (rule fl_error)
  have eb: "\<bar>fl (b / t) - b / t\<bar> \<le> 1 / 2 ^ 54" using nn(2) le(2) by (rule fl_error)
  have ec: "\<bar>fl (c / t) - c / t\<bar> \<le> 1 / 2 ^ 54" using nn(3) le(3) by (rule fl_error)
  show s3: "\<bar>fl (a / t) + fl (b / t) + fl (c / t) - 1\<bar> \<le> 3 / 2 ^ 54"
    using ea eb ec exact by linarith
  have pa: "0 \<le> fl (a / t)" using nn(1) by (rule fl_nonneg)
  have pb: "0 \<le> fl (b / t)" using nn(2) by (rule fl_nonneg)
  have pc: "0 \<le> fl (c / t)" using nn(3) by (rule fl_nonneg)
  define x where "x = fl (a / t) + fl (b / t)"
  have x0: "0 \<le> x" using pa pb by (simp add: x_def)
  have "x \<le> a / t + b / t + 2 / 2 ^ 54" using ea eb unfolding x_def by linarith
  also have "\<dots> \<le> 1 + 2 / 2 ^ 54" using exact nn(3) by linarith
  finally have x2: "x < 2" by simp
  have ex: "\<bar>fl x - x\<bar> \<le> 1 / 2 ^ 53" using x0 x2 by (rule fl_error_below_two)
  define y where "y = fl x + fl (c / t)"
  have y0: "0 \<le> y" using fl_nonneg [OF x0] pc by (simp add: y_def)
  have yb: "\<bar>y - 1\<bar> \<le> 3 / 2 ^ 54 + 1 / 2 ^ 53"
    using ex s3 unfolding y_def x_def by linarith
  moreover have "(3::rat) / 2 ^ 54 + 1 / 2 ^ 53 < 1" by simp
  ultimately have y2: "y < 2" by linarith
  have ey: "\<bar>fl y - y\<bar> \<le> 1 / 2 ^ 53" using y0 y2 by (rule fl_error_below_two)
  have h: "(1::rat) / 2 ^ 53 = 2 / 2 ^ 54" by simp
  have "\<bar>fl y - 1\<bar> \<le> 7 / 2 ^ 54" using ey yb unfolding h by linarith
  then show "\<bar>js_add (js_add (fl (a / t)) (fl (b / t))) (fl (c / t)) - 1\<bar> \<le> 7 / 2 ^ 54"
    by (simp add: js_add_def y_def x_def)
qed

lemma fold_scoreStep:
  "fold (scoreStep w) posts (a, b, c) = (a', b', c') \<Longrightarrow>
   a' + b' + c' = a + b + c + int (length posts) \<and> a \<le> a' \<and> b \<le> b' \<and> c \<le> c'"
proof (induction posts arbitrary: a b c)
  case Nil
  then show ?case by simp
next
  case (Cons p posts)
  obtain a1 b1 c1 where s: "scoreStep w p (a, b, c) = (a1, b1, c1)"
    by (cases "scoreStep w p (a, b, c)") auto
  then have one: "a1 + b1 + c1 = a + b + c + 1 \<and> a \<le> a1 \<and> b \<le> b1 \<and> c \<le> c1"
    by (auto simp: scoreStep_def Let_def split: if_splits)
  from Cons.prems s have "fold (scoreStep w) posts (a1, b1, c1) = (a', b', c')" by simp
  from Cons.IH [OF this] one show ?case by simp
qed

text \<open>The sum can exceed 1 as well: 9 positive, 18 neutral and 1 negative post of 28.\<close>

lemma js_sum_above_one:
  "js_add (js_add (js_div 9 28) (js_div 18 28)) (js_div 1 28) = 1 + 1 / 2 ^ 52"
  by code_simp

text \<open>
  C8 (amended).  For every non-empty post list the counts add up to the number of posts and
  each ratio is the double nearest to its count divided by the total.  The sum
  \<open>pos + neu + neg\<close> computed in doubles differs from 1 by at most \<open>7 / 2 ^ 54\<close>, and the
  exact sum of the three ratios differs from 1 by at most \<open>3 / 2 ^ 54\<close>.  For the empty
  list the result is exactly
  \<open>{ratios: {pos: 0, neg: 0, neu: 0}, counts: {total: 0, pos: 0, neg: 0, neu: 0}}\<close>.
\<close>

theorem summarizeSentiment_ratios:
  "(posts \<noteq> [] \<longrightarrow>
      total (counts (summarizeSentiment w posts)) = int (length posts)
      \<and> posCount (counts (summarizeSentiment w posts))
          + neuCount (counts (summarizeSentiment w posts))
          + negCount (counts (summarizeSentiment w posts)) = int (length posts)
      \<and> pos (ratios (summarizeSentiment w posts))
          = js_div (of_int (posCount (counts (summarizeSentiment w posts))))
                   (of_int (int (length posts)))
      \<and> neu (ratios (summarizeSentiment w posts))
          = js_div (of_int (neuCount (counts (summarizeSentiment w posts))))
                   (of_int (int (length posts)))
      \<and> neg (ratios (summarizeSentiment w posts))
          = js_div (of_int (negCount (counts (summarizeSentiment w posts))))
                   (of_int (int (length posts)))
      \<and> \<bar>js_add (js_add (pos (ratios (summarizeSentiment w posts)))
                        (neu (ratios (summarizeSentiment w posts))))
                (neg (ratios (summarizeSentiment w posts))) - 1\<bar> \<le> 7 / 2 ^ 54
      \<and> \<bar>pos (ratios (summarizeSentiment w posts)) + neu (ratios (summarizeSentiment w posts))
           + neg (ratios (summarizeSentiment w posts)) - 1\<bar> \<le> 3 / 2 ^ 54)
   \<and> summarizeSentiment w []
       = \<lparr>ratios = \<lparr>pos = 0, neg = 0, neu = 0\<rparr>,
          counts = \<lparr>total = 0, posCount = 0, negCount = 0, neuCount = 0\<rparr>\<rparr>"
proof (intro conjI impI)
  show "summarizeSentiment w []
       = \<lparr>ratios = \<lparr>pos = 0, neg = 0, neu = 0\<rparr>,
          counts = \<lparr>total = 0, posCount = 0, negCount = 0, neuCount = 0\<rparr>\<rparr>"
    by (simp add: summarizeSentiment_def)
next
  assume ne: "posts \<noteq> []"
  obtain a b c where f: "fold (scoreStep w) posts (0, 0, 0) = (a, b, c)"
    by (cases "fold (scoreStep w) posts (0, 0, 0)") auto
  from fold_scoreStep [OF f]
  have sum: "a + b + c = int (length posts)" and nn: "0 \<le> a" "0 \<le> b" "0 \<le> c" by simp_all
  define t :: rat where "t = of_int (int (length posts))"
  from ne have tpos: "0 < t" by (simp add: t_def)
  have r: "summarizeSentiment w posts
             = \<lparr>ratios = \<lparr>pos = js_div (of_int a) t, neg = js_div (of_int b) t,
                           neu = js_div (of_int c) t\<rparr>,
                counts = \<lparr>total = int (length posts), posCount = a, negCount = b,
                           neuCount = c\<rparr>\<rparr>"
    using ne f by (simp add: summarizeSentiment_def t_def)
  show "total (counts (summarizeSentiment w posts)) = int (length posts)"
    by (simp add: r)
  show "posCount (counts (summarizeSentiment w posts))
          + neuCount (counts (summarizeSentiment w posts))
          + negCount (counts (summarizeSentiment w posts)) = int (length posts)"
    using sum by (simp add: r)
  show "pos (ratios (summarizeSentiment w posts))
          = js_div (of_int (posCount (counts (summarizeSentiment w posts))))
                   (of_int (int (length posts)))"
    by (simp add: r t_def)
  show "neu (ratios (summarizeSentiment w posts))
          = js_div (of_int (neuCount (counts (summarizeSentiment w posts))))
                   (of_int (int (length posts)))"
    by (simp add: r t_def)
  show "neg (ratios (summarizeSentiment w posts))
          = js_div (of_int (negCount (counts (summarizeSentiment w posts))))
                   (of_int (int (length posts)))"
    by (simp add: r t_def)
  have tot: "(of_int a :: rat) + of_int c + of_int b = t"
    using sum by (simp add: t_def flip: of_int_add)
  have na: "(0::rat) \<le> of_int a" and nc: "(0::rat) \<le> of_int c" and nb: "(0::rat) \<le> of_int b"
    using nn by simp_all
  from js_sum_bound [OF na nc nb tpos tot]
  have exact: "\<bar>fl (of_int a / t) + fl (of_int c / t) + fl (of_int b / t) - 1\<bar> \<le> 3 / 2 ^ 54"
    and js: "\<bar>js_add (js_add (fl (of_int a / t)) (fl (of_int c / t))) (fl (of_int b / t)) - 1\<bar>
              \<le> 7 / 2 ^ 54"
    by simp_all
  from js show "\<bar>js_add (js_add (pos (ratios (summarizeSentiment w posts)))
                        (neu (ratios (summarizeSentiment w posts))))
                (neg (ratios (summarizeSentiment w posts))) - 1\<bar> \<le> 7 / 2 ^ 54"
    by (simp add: r js_div_def)
  from exact
  show "\<bar>pos (ratios (summarizeSentiment w posts)) + neu (ratios (summarizeSentiment w posts))
           + neg (ratios (summarizeSentiment w posts)) - 1\<bar> \<le> 3 / 2 ^ 54"
    by (simp add: r js_div_def)
qed

theorem summarizeSentiment_ratios_witness:
  "posts35 \<noteq> []
   \<and> total (counts (summarizeSentiment demo_scorer posts35)) = 35
   \<and> posCount (counts (summarizeSentiment demo_scorer posts35))
       + neuCount (counts (summarizeSentiment demo_scorer posts35))
       + negCount (counts (summarizeSentiment demo_scorer posts35)) = 35
   \<and> \<bar>js_add (js_add (pos (ratios (summarizeSentiment demo_scorer posts35)))
                     (neu (ratios (summarizeSentiment demo_scorer posts35))))
             (neg (ratios (summarizeSentiment demo_scorer posts35))) - 1\<bar> \<le> 7 / 2 ^ 54
   \<and> \<bar>pos (ratios (summarizeSentiment demo_scorer posts35))
        + neu (ratios (summarizeSentiment demo_scorer posts35))
        + neg (ratios (summarizeSentiment demo_scorer posts35)) - 1\<bar> \<le> 3 / 2 ^ 54"
proof -
  have ne: "posts35 \<noteq> []" by (simp add: posts35_def)
  have len: "int (length posts35) = 35" by (simp add: posts35_def)
  from summarizeSentiment_ratios [of posts35 demo_scorer] ne
  have "total (counts (summarizeSentiment demo_scorer posts35)) = int (length posts35)
   \<and> posCount (counts (summarizeSentiment demo_scorer posts35))
       + neuCount (counts (summarizeSentiment demo_scorer posts35))
       + negCount (counts (summarizeSentiment demo_scorer posts35)) = int (length posts35)
   \<and> \<bar>js_add (js_add (pos (ratios (summarizeSentiment demo_scorer posts35)))
                     (neu (ratios (summarizeSentiment demo_scorer posts35))))
             (neg (ratios (summarizeSentiment demo_scorer posts35))) - 1\<bar> \<le> 7 / 2 ^ 54
   \<and> \<bar>pos (ratios (summarizeSentiment demo_scorer posts35))
        + neu (ratios (summarizeSentiment demo_scorer posts35))
        + neg (ratios (summarizeSentiment demo_scorer posts35)) - 1\<bar> \<le> 3 / 2 ^ 54"
    by blast
  with ne show ?thesis unfolding len by blast
qed

end
